theory Spec2Isabelle
  imports Main "HOL-Library.Sublist"
begin

section \<open>The throughput plot of the testbed (analysis/plot_testbed.py)\<close>

text \<open>
  The script reads \<^verbatim>\<open>throughput_per_egress.csv\<close> from a measurement directory into a
  data frame, builds the list \<^verbatim>\<open>keys\<close> of the series to draw, hands it to the chart
  constructor \<^verbatim>\<open>px.line\<close> with \<^verbatim>\<open>x="t"\<close>, writes the figure to
  \<^verbatim>\<open>plot_testbed.html\<close> in the same directory and prints the path.

  The script is embedded line by line. The calls into pandas and plotly are not part of
  the script: the CSV parser, the chart constructor, the HTML renderer and the permission
  to open a path for writing are parameters of the model, collected in a record, so every
  theorem below holds for whatever these libraries do. The renderer puts an identifier
  drawn at random into each document it writes, so it is a function of the figure and of
  the draw, and the world counts the draws.
\<close>

subsection \<open>Data\<close>

text \<open>A data frame: the column labels in header order, and the rows of cells.\<close>

record dataframe =
  columns :: "string list"
  cells :: "string list list"

text \<open>\<^verbatim>\<open>df.keys()\<close>: the column labels, in order.\<close>

definition df_keys :: "dataframe \<Rightarrow> string list" where
  "df_keys df = columns df"

text \<open>The calls that can raise, by the line of the script that makes them.\<close>

datatype error = ReadCsvRaised | LineRaised | WriteHtmlRaised

text \<open>
  The file system (path to content), the lines printed so far, and how many random
  identifiers have been drawn so far.
\<close>

record world =
  files :: "string \<rightharpoonup> string"
  stdout :: "string list"
  drawn :: nat

text \<open>The library calls the script makes, as parameters.\<close>

record 'fig library =
  parse_csv :: "string \<Rightarrow> dataframe option"
  px_line :: "dataframe \<Rightarrow> string \<Rightarrow> string list \<Rightarrow> 'fig option"
  to_html :: "nat \<Rightarrow> 'fig \<Rightarrow> string"
  may_write :: "string \<Rightarrow> bool"

subsection \<open>The script\<close>

text \<open>
  Lines 30 and 32: the comprehension drops the three names from the labels, then the two
  literals are put in front.
\<close>

definition keys :: "string list \<Rightarrow> string list" where
  "keys ks = [''Sum''] @ [''violations''] @
     [k \<leftarrow> ks. k \<notin> {''t'', ''Sum'', ''violations''}]"

text \<open>
  \<^verbatim>\<open>os.path.join\<close> on two components (POSIX): a second component that starts with the
  separator replaces the first; an empty first component or one that ends with the
  separator is extended directly; otherwise a separator is put between the two.
\<close>

fun startswith_sep :: "string \<Rightarrow> bool" where
  "startswith_sep [] = False"
| "startswith_sep (c # cs) = (c = CHR ''/'')"

definition os_path_join :: "string \<Rightarrow> string \<Rightarrow> string" where
  "os_path_join a b =
     (if startswith_sep b then b
      else if a = [] \<or> last a = CHR ''/'' then a @ b
      else a @ ''/'' @ b)"

text \<open>
  \<^verbatim>\<open>pd.read_csv(file, sep=",")\<close>: opens the file, which raises when there is none, and
  parses its text, which raises when the parser does.
\<close>

definition read_csv ::
  "'fig library \<Rightarrow> (string \<rightharpoonup> string) \<Rightarrow> string \<Rightarrow> error + dataframe" where
  "read_csv L fs file =
     (case fs file of
        None \<Rightarrow> Inl ReadCsvRaised
      | Some text \<Rightarrow>
          (case parse_csv L text of
             None \<Rightarrow> Inl ReadCsvRaised
           | Some df \<Rightarrow> Inr df))"

text \<open>
  \<^verbatim>\<open>fig.write_html(plot_file)\<close>: when the path can be opened for writing, the file at
  that path holds the rendered figure afterwards and every other file is as before. The
  document embeds an identifier drawn afresh at each call (the id of the chart's element,
  a \<^verbatim>\<open>uuid4\<close>), so the text written depends on the draw as well as on the figure, and
  two writes of the same figure need not give the same text.
  The state of the file system after a write that raised is not modelled.
\<close>

definition write_html :: "'fig library \<Rightarrow> 'fig \<Rightarrow> string \<Rightarrow> world \<Rightarrow> error + world" where
  "write_html L fig file w =
     (if may_write L file
      then Inr (w\<lparr>files := (files w)(file \<mapsto> to_html L (drawn w) fig),
                  drawn := Suc (drawn w)\<rparr>)
      else Inl WriteHtmlRaised)"

text \<open>
  The body under \<^verbatim>\<open>__main__\<close>, from the directory that \<^verbatim>\<open>select_measurement\<close>
  returned. No exception is caught: the first call that raises ends the run.
\<close>

definition main :: "'fig library \<Rightarrow> string \<Rightarrow> world \<Rightarrow> error + world" where
  "main L path w =
     (let file = os_path_join path ''throughput_per_egress.csv'';
          plot_file = os_path_join path ''plot_testbed.html''
      in case read_csv L (files w) file of
           Inl e \<Rightarrow> Inl e
         | Inr df \<Rightarrow>
             (case px_line L df ''t'' (keys (df_keys df)) of
                None \<Rightarrow> Inl LineRaised
              | Some fig \<Rightarrow>
                  (case write_html L fig plot_file w of
                     Inl e \<Rightarrow> Inl e
                   | Inr w' \<Rightarrow>
                       Inr (w'\<lparr>stdout := stdout w' @ [''Written plot to '' @ plot_file]\<rparr>))))"

text \<open>
  The directory part that \<^verbatim>\<open>os.path.join\<close> puts in front of a relative file name.
\<close>

definition dir_prefix :: "string \<Rightarrow> string" where
  "dir_prefix path = (if path = [] \<or> last path = CHR ''/'' then path else path @ ''/'')"

subsection \<open>A concrete library and file system for running the script\<close>

text \<open>\<^verbatim>\<open>str.split(sep)\<close> for a separator of one character.\<close>

fun split_on :: "char \<Rightarrow> string \<Rightarrow> string list" where
  "split_on c [] = [[]]"
| "split_on c (x # xs) =
     (if x = c then [] # split_on c xs
      else (case split_on c xs of
              [] \<Rightarrow> [[x]]
            | f # fs \<Rightarrow> (x # f) # fs))"

text \<open>
  A small parser: the first line is the header, each further line a row, fields separated
  by commas, lines by semicolons; the empty text is refused. The chart constructor accepts
  a call when the axis and every series name a column of the frame and raises otherwise;
  the chart is the pair of its axis and its series, rendered by listing them, followed by
  one mark for each identifier drawn before. Every path may be written.
\<close>

definition testbed_parse :: "string \<Rightarrow> dataframe option" where
  "testbed_parse content =
     (if content = [] then None
      else (case split_on CHR '';'' content of
              [] \<Rightarrow> None
            | h # rows \<Rightarrow>
                Some \<lparr>columns = split_on CHR '','' h,
                      cells = map (split_on CHR '','') rows\<rparr>))"

definition testbed_library :: "(string \<times> string list) library" where
  "testbed_library =
     \<lparr>parse_csv = testbed_parse,
      px_line = (\<lambda>df x y. if x \<in> set (columns df) \<and> set y \<subseteq> set (columns df)
                            then Some (x, y) else None),
      to_html = (\<lambda>n fig. concat (fst fig # snd fig) @ replicate n CHR ''#''),
      may_write = (\<lambda>file. True)\<rparr>"

text \<open>
  Two measurement directories: \<^verbatim>\<open>/m\<close> holds a table of the testbed,
  \<^verbatim>\<open>/bare\<close> a table without the columns t, Sum and violations.
\<close>

definition testbed_world :: world where
  "testbed_world =
     \<lparr>files = [''/m/throughput_per_egress.csv'' \<mapsto> ''t,A,Sum,B,violations,C;0,1,3,2,0,0'',
               ''/bare/throughput_per_egress.csv'' \<mapsto> ''A,B;1,2''],
      stdout = [],
      drawn = 0\<rparr>"

text \<open>The same world after a run on \<^verbatim>\<open>/m\<close>, and after a second one.\<close>

definition testbed_plotted :: world where
  "testbed_plotted =
     \<lparr>files = [''/m/throughput_per_egress.csv'' \<mapsto> ''t,A,Sum,B,violations,C;0,1,3,2,0,0'',
               ''/bare/throughput_per_egress.csv'' \<mapsto> ''A,B;1,2'',
               ''/m/plot_testbed.html'' \<mapsto> ''tSumviolationsABC''],
      stdout = [''Written plot to /m/plot_testbed.html''],
      drawn = Suc 0\<rparr>"

definition testbed_replotted :: world where
  "testbed_replotted =
     \<lparr>files = [''/m/throughput_per_egress.csv'' \<mapsto> ''t,A,Sum,B,violations,C;0,1,3,2,0,0'',
               ''/bare/throughput_per_egress.csv'' \<mapsto> ''A,B;1,2'',
               ''/m/plot_testbed.html'' \<mapsto> ''tSumviolationsABC#''],
      stdout = [''Written plot to /m/plot_testbed.html'',
                ''Written plot to /m/plot_testbed.html''],
      drawn = Suc (Suc 0)\<rparr>"

section \<open>The series list\<close>

lemma keys_eq:
  "keys ks = ''Sum'' # ''violations'' #
     filter (\<lambda>k. k \<noteq> ''t'' \<and> k \<noteq> ''Sum'' \<and> k \<noteq> ''violations'') ks"
  by (simp add: keys_def)

lemma set_keys:
  "set (keys ks) = {''Sum'', ''violations''} \<union> (set ks - {''t'', ''Sum'', ''violations''})"
  by (auto simp add: keys_eq)

text \<open>
  C1. When the header has the columns t, Sum and violations, the series list is Sum,
  violations and then every other column except t in header order: its first two entries
  are Sum and violations, the rest is a subsequence of the header, and the names drawn are
  exactly the header's names without t. For the header t,A,Sum,B,violations,C it is
  Sum, violations, A, B, C.
\<close>

theorem keys_priority_then_header_order:
  assumes "''t'' \<in> set hdr" and "''Sum'' \<in> set hdr" and "''violations'' \<in> set hdr"
  shows "keys hdr = ''Sum'' # ''violations'' #
           filter (\<lambda>k. k \<noteq> ''t'' \<and> k \<noteq> ''Sum'' \<and> k \<noteq> ''violations'') hdr
         \<and> subseq (drop 2 (keys hdr)) hdr
         \<and> set (keys hdr) = set hdr - {''t''}
         \<and> keys [''t'', ''A'', ''Sum'', ''B'', ''violations'', ''C'']
             = [''Sum'', ''violations'', ''A'', ''B'', ''C'']"
proof -
  have "subseq (drop 2 (keys hdr)) hdr"
    by (simp add: keys_eq)
  moreover have "set (keys hdr) = set hdr - {''t''}"
    using assms by (auto simp add: set_keys)
  moreover have "keys [''t'', ''A'', ''Sum'', ''B'', ''violations'', ''C'']
      = [''Sum'', ''violations'', ''A'', ''B'', ''C'']"
    by (simp add: keys_eq)
  ultimately show ?thesis
    by (simp add: keys_eq)
qed

theorem keys_priority_then_header_order_witness:
  "''t'' \<in> set [''Sum'', ''X'', ''t'', ''violations'']
   \<and> keys [''Sum'', ''X'', ''t'', ''violations''] = [''Sum'', ''violations'', ''X'']
   \<and> set (keys [''Sum'', ''X'', ''t'', ''violations'']) = {''Sum'', ''X'', ''violations''}"
  using keys_priority_then_header_order [of "[''Sum'', ''X'', ''t'', ''violations'']"]
  by auto

text \<open>
  C2. Header t,A,B: the claim expects the series list A, B. The script puts both literals
  in front without looking at the header, so the list is Sum, violations, A, B.
\<close>

theorem keys_absent_counterexample:
  "keys [''t'', ''A'', ''B''] \<noteq> [''A'', ''B'']"
  by (simp add: keys_eq)

text \<open>
  C2, as the script has it. When Sum or violations is missing from the header, the first
  two entries of the series list are still Sum and violations, the rest is the header
  without t, Sum and violations in header order, and so the list names a column that the
  table does not have. For the header t,A,B it is Sum, violations, A, B.
\<close>

theorem keys_absent_designated:
  assumes "''Sum'' \<notin> set hdr \<or> ''violations'' \<notin> set hdr"
  shows "take 2 (keys hdr) = [''Sum'', ''violations'']
         \<and> drop 2 (keys hdr)
             = filter (\<lambda>k. k \<noteq> ''t'' \<and> k \<noteq> ''Sum'' \<and> k \<noteq> ''violations'') hdr
         \<and> \<not> set (keys hdr) \<subseteq> set hdr
         \<and> keys [''t'', ''A'', ''B''] = [''Sum'', ''violations'', ''A'', ''B'']"
  using assms by (auto simp add: keys_eq)

theorem keys_absent_designated_witness:
  "''Sum'' \<notin> set [''t'', ''A'', ''violations'']
   \<and> take 2 (keys [''t'', ''A'', ''violations'']) = [''Sum'', ''violations'']
   \<and> drop 2 (keys [''t'', ''A'', ''violations'']) = [''A'']
   \<and> \<not> set (keys [''t'', ''A'', ''violations'']) \<subseteq> set [''t'', ''A'', ''violations'']"
  using keys_absent_designated [of "[''t'', ''A'', ''violations'']"]
  by simp

subsection \<open>How many series\<close>

lemma length_filter_without:
  assumes "distinct xs" and "D \<subseteq> set xs"
  shows "length (filter (\<lambda>k. k \<notin> D) xs) + card D = length xs"
proof -
  have fin: "finite D"
    using assms(2) finite_subset by blast
  have "set (filter (\<lambda>k. k \<notin> D) xs) = set xs - D"
    by auto
  moreover have "distinct (filter (\<lambda>k. k \<notin> D) xs)"
    using assms(1) by simp
  ultimately have "length (filter (\<lambda>k. k \<notin> D) xs) = card (set xs - D)"
    by (metis distinct_card)
  also have "\<dots> = card (set xs) - card D"
    using assms(2) fin by (simp add: card_Diff_subset)
  finally have "length (filter (\<lambda>k. k \<notin> D) xs) = length xs - card D"
    using assms(1) by (simp add: distinct_card)
  moreover have "card D \<le> length xs"
    using assms by (metis card_mono distinct_card List.finite_set)
  ultimately show ?thesis
    by simp
qed

lemma length_drop_three:
  assumes "distinct xs" and "a \<in> set xs" and "b \<in> set xs" and "c \<in> set xs"
    and "a \<noteq> b" and "a \<noteq> c" and "b \<noteq> c"
  shows "length (filter (\<lambda>k. k \<noteq> a \<and> k \<noteq> b \<and> k \<noteq> c) xs) + 3 = length xs"
proof -
  have "card {a, b, c} = 3"
    using assms(5-7) by simp
  moreover have "(\<lambda>k. k \<noteq> a \<and> k \<noteq> b \<and> k \<noteq> c) = (\<lambda>k. k \<notin> {a, b, c})"
    by auto
  moreover have "{a, b, c} \<subseteq> set xs"
    using assms(2-4) by simp
  ultimately show ?thesis
    using length_filter_without [OF assms(1), of "{a, b, c}"] by simp
qed

text \<open>
  C3. Header t,A,B has three columns, so the claim expects two series. The list handed
  to the chart constructor has four names.
\<close>

theorem trace_count_counterexample:
  "length (keys [''t'', ''A'', ''B'']) \<noteq> length [''t'', ''A'', ''B''] - 1"
  by (simp add: keys_eq)

text \<open>
  C3, as the script has it. When the column labels are pairwise different and t, Sum and
  violations are among them, the number of series is the number of columns minus one, and
  the series are exactly the columns other than t.
\<close>

theorem trace_count:
  assumes "distinct hdr" and "''t'' \<in> set hdr" and "''Sum'' \<in> set hdr"
    and "''violations'' \<in> set hdr"
  shows "length (keys hdr) = length hdr - 1 \<and> length (keys hdr) + 1 = length hdr
         \<and> set (keys hdr) = set hdr - {''t''}"
proof -
  have "length (filter (\<lambda>k. k \<noteq> ''t'' \<and> k \<noteq> ''Sum'' \<and> k \<noteq> ''violations'') hdr) + 3
          = length hdr"
    using assms by (intro length_drop_three) simp_all
  then have "length (keys hdr) + 1 = length hdr"
    by (simp add: keys_eq)
  moreover have "set (keys hdr) = set hdr - {''t''}"
    using assms by (auto simp add: set_keys)
  ultimately show ?thesis
    by simp
qed

theorem trace_count_witness:
  "distinct [''t'', ''A'', ''Sum'', ''B'', ''violations'', ''C'']
   \<and> length (keys [''t'', ''A'', ''Sum'', ''B'', ''violations'', ''C'']) = 5
   \<and> length [''t'', ''A'', ''Sum'', ''B'', ''violations'', ''C''] - 1 = (5::nat)"
  using trace_count [of "[''t'', ''A'', ''Sum'', ''B'', ''violations'', ''C'']"]
  by simp

subsection \<open>What reaches the chart constructor\<close>

text \<open>
  A run only ever calls the chart constructor on the data frame it read, with the axis t
  and the series list of that frame's labels: two libraries that agree on these calls
  give the same run.
\<close>

lemma main_px_line_cong:
  assumes "\<And>df. px_line L' df ''t'' (keys (df_keys df)) = px_line L df ''t'' (keys (df_keys df))"
    and "parse_csv L' = parse_csv L" and "to_html L' = to_html L" and "may_write L' = may_write L"
  shows "main L' path w = main L path w"
  using assms
  by (simp add: main_def read_csv_def write_html_def Let_def
      split: option.splits sum.splits)

text \<open>
  C4. The name t is never in the series list, whatever the header is, and t is the axis:
  a chart constructor that refuses every call whose axis is not t or whose series include
  t gives the same run as the one it restricts.
\<close>

theorem t_is_axis_not_series:
  "''t'' \<notin> set (keys hdr)
   \<and> main (L\<lparr>px_line := \<lambda>df x y. if x = ''t'' \<and> ''t'' \<notin> set y
                                  then px_line L df x y else None\<rparr>) path w
       = main L path w"
proof -
  have "''t'' \<notin> set (keys hdr)"
    by (simp add: set_keys)
  moreover have "main (L\<lparr>px_line := \<lambda>df x y. if x = ''t'' \<and> ''t'' \<notin> set y
                                  then px_line L df x y else None\<rparr>) path w
       = main L path w"
    by (rule main_px_line_cong) (simp_all add: set_keys)
  ultimately show ?thesis
    by simp
qed

text \<open>
  C5. When the column labels of the table are pairwise different, as the labels of a data
  frame read from a CSV file are, no name occurs twice in the series list, also when Sum
  or violations is in the header.
\<close>

theorem keys_distinct:
  assumes "distinct hdr"
  shows "distinct (keys hdr)"
  using assms by (simp add: keys_eq)

theorem keys_distinct_witness:
  "distinct [''Sum'', ''t'', ''A'', ''violations'']
   \<and> distinct (keys [''Sum'', ''t'', ''A'', ''violations''])"
  using keys_distinct [of "[''Sum'', ''t'', ''A'', ''violations'']"]
  by simp

text \<open>
  C10. Whatever the header is, also the empty one, the series list begins with Sum and
  then violations, and this is the list the chart constructor gets: a chart constructor
  that refuses every series list not beginning with these two names gives the same run
  as the one it restricts.
\<close>

theorem keys_prepended_unconditionally:
  "take 2 (keys hdr) = [''Sum'', ''violations'']
   \<and> keys [] = [''Sum'', ''violations'']
   \<and> main (L\<lparr>px_line := \<lambda>df x y. if take 2 y = [''Sum'', ''violations'']
                                  then px_line L df x y else None\<rparr>) path w
       = main L path w"
proof -
  have "main (L\<lparr>px_line := \<lambda>df x y. if take 2 y = [''Sum'', ''violations'']
                                  then px_line L df x y else None\<rparr>) path w
       = main L path w"
    by (rule main_px_line_cong) (simp_all add: keys_eq)
  then show ?thesis
    by (simp add: keys_eq)
qed

section \<open>The run\<close>

lemma join_csv:
  "os_path_join path ''throughput_per_egress.csv'' = dir_prefix path @ ''throughput_per_egress.csv''"
  by (simp add: os_path_join_def dir_prefix_def)

lemma join_html:
  "os_path_join path ''plot_testbed.html'' = dir_prefix path @ ''plot_testbed.html''"
  by (simp add: os_path_join_def dir_prefix_def)

lemma plot_file_neq_file:
  "os_path_join path ''plot_testbed.html'' \<noteq> os_path_join path ''throughput_per_egress.csv''"
  by (simp add: join_csv join_html)

text \<open>A run succeeds exactly when each of its three calls does, and then this is its result.\<close>

lemma main_Inr_iff:
  "main L path w = Inr w' \<longleftrightarrow>
     (\<exists>content df fig.
        files w (os_path_join path ''throughput_per_egress.csv'') = Some content
        \<and> parse_csv L content = Some df
        \<and> px_line L df ''t'' (keys (df_keys df)) = Some fig
        \<and> may_write L (os_path_join path ''plot_testbed.html'')
        \<and> w' = w\<lparr>files := (files w)(os_path_join path ''plot_testbed.html''
                               \<mapsto> to_html L (drawn w) fig),
                 drawn := Suc (drawn w),
                 stdout := stdout w
                   @ [''Written plot to '' @ os_path_join path ''plot_testbed.html'']\<rparr>)"
  by (auto simp add: main_def read_csv_def write_html_def Let_def
      split: option.splits sum.splits if_splits)

lemma testbed_parse_m:
  "testbed_parse ''t,A,Sum,B,violations,C;0,1,3,2,0,0'' =
     Some \<lparr>columns = [''t'', ''A'', ''Sum'', ''B'', ''violations'', ''C''],
           cells = [[''0'', ''1'', ''3'', ''2'', ''0'', ''0'']]\<rparr>"
  by (simp add: testbed_parse_def)

lemma testbed_parse_bare:
  "testbed_parse ''A,B;1,2'' = Some \<lparr>columns = [''A'', ''B''], cells = [[''1'', ''2'']]\<rparr>"
  by (simp add: testbed_parse_def)

lemma testbed_run:
  "main testbed_library ''/m'' testbed_world = Inr testbed_plotted"
  by (simp add: main_def Let_def read_csv_def write_html_def os_path_join_def
      testbed_library_def testbed_world_def testbed_plotted_def testbed_parse_m
      df_keys_def keys_eq fun_upd_twist)

text \<open>
  The second run on \<^verbatim>\<open>/m\<close> draws another identifier, so the plot it writes is not the
  text the first run wrote.
\<close>

lemma testbed_rerun:
  "main testbed_library ''/m'' testbed_plotted = Inr testbed_replotted
   \<and> files testbed_replotted ''/m/plot_testbed.html''
       \<noteq> files testbed_plotted ''/m/plot_testbed.html''"
  by (simp add: main_def Let_def read_csv_def write_html_def os_path_join_def
      testbed_library_def testbed_plotted_def testbed_replotted_def testbed_parse_m
      df_keys_def keys_eq fun_upd_twist)

text \<open>
  C6. The table A,B in \<^verbatim>\<open>/bare\<close> has no column t. Reading it succeeds, so the run does
  not end with the failure of a missing, unreadable or malformed file; it ends in the
  chart constructor.
\<close>

theorem missing_t_counterexample:
  "read_csv testbed_library (files testbed_world) ''/bare/throughput_per_egress.csv''
     = Inr \<lparr>columns = [''A'', ''B''], cells = [[''1'', ''2'']]\<rparr>
   \<and> main testbed_library ''/bare'' testbed_world = Inl LineRaised
   \<and> main testbed_library ''/bare'' testbed_world \<noteq> Inl ReadCsvRaised"
  by (simp add: main_def Let_def read_csv_def write_html_def os_path_join_def
      testbed_library_def testbed_world_def testbed_parse_bare df_keys_def keys_eq)

text \<open>
  C6, as the script has it. When the input file is there and parses as a table, with or
  without a column t, reading it returns the table: the script does not look for t, and
  the run does not end with the failure of reading. It ends in the chart constructor
  exactly when that call, with the axis t and the series list, raises.
\<close>

theorem parsed_table_fails_only_later:
  assumes "files w (os_path_join path ''throughput_per_egress.csv'') = Some content"
    and "parse_csv L content = Some df"
  shows "read_csv L (files w) (os_path_join path ''throughput_per_egress.csv'') = Inr df
         \<and> main L path w \<noteq> Inl ReadCsvRaised
         \<and> (main L path w = Inl LineRaised
              \<longleftrightarrow> px_line L df ''t'' (keys (df_keys df)) = None)"
  using assms
  by (simp add: main_def read_csv_def write_html_def Let_def split: option.splits)

theorem parsed_table_fails_only_later_witness:
  "files testbed_world (os_path_join ''/bare'' ''throughput_per_egress.csv'') = Some ''A,B;1,2''
   \<and> ''t'' \<notin> set (df_keys \<lparr>columns = [''A'', ''B''], cells = [[''1'', ''2'']]\<rparr>)
   \<and> main testbed_library ''/bare'' testbed_world \<noteq> Inl ReadCsvRaised"
proof -
  have f: "files testbed_world (os_path_join ''/bare'' ''throughput_per_egress.csv'')
             = Some ''A,B;1,2''"
    by (simp add: testbed_world_def os_path_join_def)
  have p: "parse_csv testbed_library ''A,B;1,2''
             = Some \<lparr>columns = [''A'', ''B''], cells = [[''1'', ''2'']]\<rparr>"
    by (simp add: testbed_library_def testbed_parse_bare)
  show ?thesis
    using f parsed_table_fails_only_later [OF f p]
    by (simp add: df_keys_def)
qed

text \<open>
  C8. When a run succeeds, a second run from the world it leaves succeeds too and draws
  the same traces: it reads the same table, because the plot is written beside the input
  and not over it, so the chart constructor gets the same frame, the same axis t and the
  same series list and returns the same figure, and the plot of each run is a rendering of
  that figure. The two documents themselves may differ in the identifier drawn.
\<close>

theorem rerun_same_traces:
  assumes "main L path w = Inr w1"
  shows "\<exists>df fig w2.
           read_csv L (files w) (os_path_join path ''throughput_per_egress.csv'') = Inr df
           \<and> read_csv L (files w1) (os_path_join path ''throughput_per_egress.csv'') = Inr df
           \<and> px_line L df ''t'' (keys (df_keys df)) = Some fig
           \<and> files w1 (os_path_join path ''plot_testbed.html'')
               = Some (to_html L (drawn w) fig)
           \<and> main L path w1 = Inr w2
           \<and> files w2 (os_path_join path ''plot_testbed.html'')
               = Some (to_html L (drawn w1) fig)
           \<and> files w2 (os_path_join path ''throughput_per_egress.csv'')
               = files w (os_path_join path ''throughput_per_egress.csv'')"
proof -
  let ?file = "os_path_join path ''throughput_per_egress.csv''"
  let ?plot = "os_path_join path ''plot_testbed.html''"
  from assms obtain content df fig where
    rd: "files w ?file = Some content" "parse_csv L content = Some df"
    and ln: "px_line L df ''t'' (keys (df_keys df)) = Some fig"
    and wr: "may_write L ?plot"
    and w1: "w1 = w\<lparr>files := (files w)(?plot \<mapsto> to_html L (drawn w) fig),
                      drawn := Suc (drawn w),
                      stdout := stdout w @ [''Written plot to '' @ ?plot]\<rparr>"
    unfolding main_Inr_iff by blast
  define w2 where
    "w2 = w1\<lparr>files := (files w1)(?plot \<mapsto> to_html L (drawn w1) fig),
              drawn := Suc (drawn w1),
              stdout := stdout w1 @ [''Written plot to '' @ ?plot]\<rparr>"
  have same: "files w1 ?file = Some content"
    using rd(1) plot_file_neq_file [of path] by (simp add: w1)
  have r0: "read_csv L (files w) ?file = Inr df"
    using rd by (simp add: read_csv_def)
  have r1: "read_csv L (files w1) ?file = Inr df"
    using same rd(2) by (simp add: read_csv_def)
  have p1: "files w1 ?plot = Some (to_html L (drawn w) fig)"
    by (simp add: w1)
  have run2: "main L path w1 = Inr w2"
    unfolding main_Inr_iff w2_def
    using same rd(2) ln wr by blast
  have p2: "files w2 ?plot = Some (to_html L (drawn w1) fig)"
    by (simp add: w2_def)
  have f2: "files w2 ?file = files w ?file"
    using same rd(1) plot_file_neq_file [of path] by (simp add: w2_def)
  from r0 r1 ln p1 run2 p2 f2 show ?thesis
    by blast
qed

theorem rerun_same_traces_witness:
  "main testbed_library ''/m'' testbed_world = Inr testbed_plotted
   \<and> (\<exists>df fig w2.
          read_csv testbed_library (files testbed_world)
              (os_path_join ''/m'' ''throughput_per_egress.csv'') = Inr df
          \<and> read_csv testbed_library (files testbed_plotted)
              (os_path_join ''/m'' ''throughput_per_egress.csv'') = Inr df
          \<and> px_line testbed_library df ''t'' (keys (df_keys df)) = Some fig
          \<and> files testbed_plotted (os_path_join ''/m'' ''plot_testbed.html'')
              = Some (to_html testbed_library (drawn testbed_world) fig)
          \<and> main testbed_library ''/m'' testbed_plotted = Inr w2
          \<and> files w2 (os_path_join ''/m'' ''plot_testbed.html'')
              = Some (to_html testbed_library (drawn testbed_plotted) fig)
          \<and> files w2 (os_path_join ''/m'' ''throughput_per_egress.csv'')
              = files testbed_world (os_path_join ''/m'' ''throughput_per_egress.csv''))"
  using testbed_run rerun_same_traces [OF testbed_run]
  by blast

text \<open>
  C9. When a run on the directory \<^verbatim>\<open>path\<close> succeeds, the table was read from
  \<^verbatim>\<open>throughput_per_egress.csv\<close> in that directory, the file system afterwards is the one
  before with \<^verbatim>\<open>plot_testbed.html\<close> in the same directory holding the rendered chart,
  whatever was at that path before, every other file untouched, and the one line printed
  names that path. The rendering is the one for the identifier drawn in this run.
\<close>

theorem output_beside_input:
  assumes "main L path w = Inr w'"
  shows "\<exists>content df fig.
           files w (dir_prefix path @ ''throughput_per_egress.csv'') = Some content
           \<and> parse_csv L content = Some df
           \<and> px_line L df ''t'' (keys (df_keys df)) = Some fig
           \<and> files w' = (files w)(dir_prefix path @ ''plot_testbed.html''
                            \<mapsto> to_html L (drawn w) fig)
           \<and> stdout w'
               = stdout w @ [''Written plot to '' @ dir_prefix path @ ''plot_testbed.html'']"
  using assms unfolding main_Inr_iff join_csv join_html by auto

theorem output_beside_input_witness:
  "main testbed_library ''/m'' testbed_world = Inr testbed_plotted
   \<and> (\<exists>content df fig.
          files testbed_world (dir_prefix ''/m'' @ ''throughput_per_egress.csv'') = Some content
          \<and> parse_csv testbed_library content = Some df
          \<and> px_line testbed_library df ''t'' (keys (df_keys df)) = Some fig
          \<and> files testbed_plotted
              = (files testbed_world)(dir_prefix ''/m'' @ ''plot_testbed.html''
                   \<mapsto> to_html testbed_library (drawn testbed_world) fig)
          \<and> stdout testbed_plotted
              = stdout testbed_world
                @ [''Written plot to '' @ dir_prefix ''/m'' @ ''plot_testbed.html''])"
  using testbed_run output_beside_input [OF testbed_run]
  by blast

end
